theory Spec2Isabelle
  imports Complex_Main
begin

section \<open>Images and errors\<close>

text \<open>
  A raster image (a PIL \<^verbatim>\<open>Image\<close>) is its pixel size together with its raster
  content. The content is symbolic: \<open>Source n\<close> is the raster that was loaded from
  input number \<open>n\<close>, \<open>Rotated p a\<close> is the raster \<open>p\<close> after a rotation by \<open>a\<close>
  degrees. Sizes are natural numbers, as PIL's are. Python floats are modelled as
  real numbers: all geometry is exact, rounding is outside the model.
\<close>

datatype pixels = Source nat | Rotated pixels int

record image =
  width :: nat
  height :: nat
  raster :: pixels

text \<open>The exceptions the sources raise, or let escape, each with its message.\<close>

datatype error =
    ZeroDivisionError
  | OSError string
  | ValueError string
  | FileNotFoundError string
  | KeyError string
  | AttributeError

section \<open>processor.py: ImageProcessor\<close>

text \<open>
  \<^verbatim>\<open>fit_to_box(image, max_width, max_height)\<close>. Python's \<^verbatim>\<open>/\<close> raises
  \<^verbatim>\<open>ZeroDivisionError\<close> on a zero divisor, for integers and for floats alike; the
  three divisions of the source are the three guards below, in the order in which
  the source evaluates them.
\<close>

definition fit_to_box :: "image \<Rightarrow> real \<Rightarrow> real \<Rightarrow> error + (image \<times> real \<times> real)" where
  "fit_to_box img max_width max_height =
     (let img_width = width img; img_height = height img in
      if img_height = 0 then Inl ZeroDivisionError
      else let img_aspect = real img_width / real img_height in
      if max_height = 0 then Inl ZeroDivisionError
      else let box_aspect = max_width / max_height in
      if img_aspect > box_aspect then
        (if img_aspect = 0 then Inl ZeroDivisionError
         else Inr (img, max_width, max_width / img_aspect))
      else Inr (img, max_height * img_aspect, max_height))"

text \<open>
  Modelled from the spec: \<^verbatim>\<open>Image.rotate(angle, expand=True)\<close> belongs to the
  imaging library, which is not among the sources. The spec's words: the image is
  rotated by the angle, counter-clockwise, and the bounding box of the result
  expands to contain the full rotated image. \<open>rotated_corners\<close> are the four
  corners of the \<open>W \<times> H\<close> rectangle after the rotation; \<open>rotate_expand\<close> gives
  the result the smallest box on the pixel grid that holds them all.
\<close>

definition rotated_corners :: "image \<Rightarrow> int \<Rightarrow> (real \<times> real) list" where
  "rotated_corners img angle =
     (let t = real_of_int angle * pi / 180;
          w = real (width img); h = real (height img)
      in map (\<lambda>(x, y). (x * cos t - y * sin t, x * sin t + y * cos t))
           [(0, 0), (w, 0), (w, h), (0, h)])"

definition rotate_expand :: "image \<Rightarrow> int \<Rightarrow> image" where
  "rotate_expand img angle =
     (let xs = map fst (rotated_corners img angle);
          ys = map snd (rotated_corners img angle)
      in \<lparr>width = nat (\<lceil>Max (set xs)\<rceil> - \<lfloor>Min (set xs)\<rfloor>),
          height = nat (\<lceil>Max (set ys)\<rceil> - \<lfloor>Min (set ys)\<rfloor>),
          raster = Rotated (raster img) angle\<rparr>)"

text \<open>\<^verbatim>\<open>rotate_image(image, rotation)\<close>: the guard and the call are the source's.\<close>

definition rotate_image :: "image \<Rightarrow> int \<Rightarrow> image" where
  "rotate_image img rotation =
     (if rotation = 0 then img else rotate_expand img rotation)"

section \<open>layout.py: LayoutEngine\<close>

record QuadrantConfig =
  image_cfg :: "image option"
  rotation :: int

record LayoutEngine =
  margin :: real
  show_grid :: bool
  page_width :: real
  page_height :: real
  quadrant_width :: real
  quadrant_height :: real

text \<open>
  \<^verbatim>\<open>reportlab.lib.pagesizes.letter\<close>, in points; the source's comment gives the
  value.
\<close>

definition letter :: "real \<times> real" where
  "letter = (612, 792)"

text \<open>
  \<^verbatim>\<open>LayoutEngine.__init__(margin_inches, show_grid)\<close>. The constructor has no
  \<^verbatim>\<open>raise\<close> and no check: every input takes the one branch there is.
\<close>

definition LayoutEngine_init :: "real \<Rightarrow> bool \<Rightarrow> error + LayoutEngine" where
  "LayoutEngine_init margin_inches grid =
     Inr \<lparr>margin = margin_inches * 72,
          show_grid = grid,
          page_width = fst letter,
          page_height = snd letter,
          quadrant_width = fst letter / 2,
          quadrant_height = snd letter / 2\<rparr>"

text \<open>
  What the canvas records: \<open>DrawImage file img x y w h\<close> is
  \<^verbatim>\<open>drawImage(file, x, y, width=w, height=h, preserveAspectRatio=True)\<close>, \<open>img\<close>
  being the raster read from the file and embedded in the page.
\<close>

datatype draw_op =
    DrawImage nat image real real real real
  | SetStrokeColorRGB real real real
  | SetLineWidth real
  | Line real real real real

fun is_image_op :: "draw_op \<Rightarrow> bool" where
  "is_image_op (DrawImage t img x y w h) = True"
| "is_image_op _ = False"

text \<open>
  The part of the world a render touches. Temporary files are named by numbers,
  \<open>next_temp\<close> being the next unused name; a file that exists holds \<open>None\<close>
  (created, nothing written yet) or the image saved into it. \<open>canvas\<close> is the page
  of the \<^verbatim>\<open>Canvas\<close> object, \<open>pdf_files\<close> the documents written to disk.
\<close>

record world =
  temp_files :: "nat \<rightharpoonup> image option"
  next_temp :: nat
  canvas :: "draw_op list"
  pdf_files :: "string \<rightharpoonup> draw_op list"

text \<open>
  Which calls into the libraries and the operating system raise. The sources do
  not decide this, so it is a parameter of every run.
\<close>

record env =
  image_save_fails :: "nat \<Rightarrow> bool"
  drawImage_fails :: "nat \<Rightarrow> bool"
  canvas_save_fails :: "string \<Rightarrow> bool"
  remove_fails :: "nat \<Rightarrow> bool"

text \<open>
  \<^verbatim>\<open>_draw_quadrant(c, config, quad_x, quad_y)\<close>, in two parts. The first is what
  the method computes before it touches a file or the canvas: the rotated image,
  the draw size and the offsets, returned as \<open>(image, x_offset, y_offset,
  draw_width, draw_height)\<close>. With no image in the configuration the first attribute
  access on \<^verbatim>\<open>None\<close> raises.
\<close>

definition quadrant_geometry ::
  "LayoutEngine \<Rightarrow> QuadrantConfig \<Rightarrow> int \<Rightarrow> int \<Rightarrow> error + (image \<times> real \<times> real \<times> real \<times> real)" where
  "quadrant_geometry eng config quad_x quad_y =
     (case image_cfg config of
        None \<Rightarrow> Inl AttributeError
      | Some img0 \<Rightarrow>
         let img = rotate_image img0 (rotation config);
             available_width = quadrant_width eng - (2 * margin eng);
             available_height = quadrant_height eng - (2 * margin eng)
         in case fit_to_box img available_width available_height of
              Inl e \<Rightarrow> Inl e
            | Inr (_, draw_width, draw_height) \<Rightarrow>
               let x_offset = real_of_int quad_x * quadrant_width eng + margin eng
                              + (available_width - draw_width) / 2;
                   y_offset = real_of_int quad_y * quadrant_height eng + margin eng
                              + (available_height - draw_height) / 2
               in Inr (img, x_offset, y_offset, draw_width, draw_height))"

text \<open>
  The second part: the temporary file is created, the image is saved into it, the
  canvas draws it, and the file's name is returned.
\<close>

definition draw_quadrant ::
  "env \<Rightarrow> LayoutEngine \<Rightarrow> world \<Rightarrow> QuadrantConfig \<Rightarrow> int \<Rightarrow> int \<Rightarrow> world \<times> (error + nat option)" where
  "draw_quadrant ev eng w config quad_x quad_y =
     (case quadrant_geometry eng config quad_x quad_y of
        Inl e \<Rightarrow> (w, Inl e)
      | Inr (img, x_offset, y_offset, draw_width, draw_height) \<Rightarrow>
         let temp_file = next_temp w;
             w1 = w\<lparr>temp_files := (temp_files w)(temp_file \<mapsto> None),
                    next_temp := Suc temp_file\<rparr>
         in if image_save_fails ev temp_file
            then (w1, Inl (OSError ''image.save''))
            else
              let w2 = w1\<lparr>temp_files := (temp_files w1)(temp_file \<mapsto> Some img)\<rparr>
              in if drawImage_fails ev temp_file
                 then (w2, Inl (OSError ''drawImage''))
                 else (w2\<lparr>canvas := canvas w2 @
                            [DrawImage temp_file img x_offset y_offset draw_width draw_height]\<rparr>,
                       Inr (Some temp_file)))"

text \<open>\<^verbatim>\<open>_draw_grid(c)\<close>.\<close>

definition draw_grid :: "LayoutEngine \<Rightarrow> world \<Rightarrow> world" where
  "draw_grid eng w =
     w\<lparr>canvas := canvas w @
        [SetStrokeColorRGB (8 / 10) (8 / 10) (8 / 10),
         SetLineWidth 1,
         Line (page_width eng / 2) 0 (page_width eng / 2) (page_height eng),
         Line 0 (page_height eng / 2) (page_width eng) (page_height eng / 2)]\<rparr>"

text \<open>
  The truth value of \<^verbatim>\<open>config and config.image\<close>: a configuration is there and
  holds an image.
\<close>

definition occupied :: "QuadrantConfig option \<Rightarrow> bool" where
  "occupied config = (case config of None \<Rightarrow> False | Some c \<Rightarrow> image_cfg c \<noteq> None)"

text \<open>
  The loop of \<^verbatim>\<open>generate_pdf\<close> over the quadrants, with the list \<^verbatim>\<open>temp_files\<close> it
  builds. An exception leaves the loop, and the call, at once.
\<close>

fun draw_quadrants ::
  "env \<Rightarrow> LayoutEngine \<Rightarrow> world \<Rightarrow> (QuadrantConfig option \<times> int \<times> int) list \<Rightarrow> nat list
   \<Rightarrow> world \<times> (error + nat list)" where
  "draw_quadrants ev eng w [] tfs = (w, Inr tfs)"
| "draw_quadrants ev eng w ((config, quad_x, quad_y) # rest) tfs =
     (if occupied config then
        (case draw_quadrant ev eng w (the config) quad_x quad_y of
           (w', Inl e) \<Rightarrow> (w', Inl e)
         | (w', Inr temp_file) \<Rightarrow>
            draw_quadrants ev eng w' rest
              (case temp_file of None \<Rightarrow> tfs | Some t \<Rightarrow> tfs @ [t]))
      else draw_quadrants ev eng w rest tfs)"

text \<open>
  The clean-up loop: \<^verbatim>\<open>os.remove\<close> under \<^verbatim>\<open>try\<close>/\<^verbatim>\<open>except: pass\<close>. A removal that
  raises (the file is gone already, or the system refuses) changes nothing.
\<close>

fun cleanup :: "env \<Rightarrow> world \<Rightarrow> nat list \<Rightarrow> world" where
  "cleanup ev w [] = w"
| "cleanup ev w (temp_file # rest) =
     cleanup ev
       (if temp_files w temp_file = None \<or> remove_fails ev temp_file then w
        else w\<lparr>temp_files := (temp_files w)(temp_file := None)\<rparr>)
       rest"

text \<open>
  \<^verbatim>\<open>generate_pdf(output_path, q1, q2, q3, q4)\<close>. The canvas is created empty; the
  result pairs the world the call leaves behind with the exception that escaped,
  or with \<open>()\<close> when the call returned.
\<close>

definition generate_pdf ::
  "env \<Rightarrow> LayoutEngine \<Rightarrow> world \<Rightarrow> string
   \<Rightarrow> QuadrantConfig option \<Rightarrow> QuadrantConfig option
   \<Rightarrow> QuadrantConfig option \<Rightarrow> QuadrantConfig option \<Rightarrow> world \<times> (error + unit)" where
  "generate_pdf ev eng w output_path q1 q2 q3 q4 =
     (let c = w\<lparr>canvas := []\<rparr>;
          quadrants = [(q1, 0, 1), (q2, 1, 1), (q3, 0, 0), (q4, 1, 0)]
      in case draw_quadrants ev eng c quadrants [] of
           (w1, Inl e) \<Rightarrow> (w1, Inl e)
         | (w1, Inr tfs) \<Rightarrow>
            let w2 = (if show_grid eng then draw_grid eng w1 else w1)
            in if canvas_save_fails ev output_path
               then (w2, Inl (OSError ''canvas.save''))
               else (cleanup ev (w2\<lparr>pdf_files := (pdf_files w2)(output_path \<mapsto> canvas w2)\<rparr>) tfs,
                     Inr ()))"

section \<open>Fit-to-box\<close>

text \<open>
  C1. For an image of positive width and height and a box of positive width and
  height, \<open>fit_to_box\<close> returns: when the image's aspect ratio exceeds the box's,
  the box's width and that width divided by the image's aspect ratio; otherwise the
  box's height and that height times the image's aspect ratio. The result fits in
  the box, touches it on at least one axis, and has the image's aspect ratio.
\<close>

theorem fit_to_box_fits:
  assumes "0 < width img" and "0 < height img"
    and "0 < max_width" and "0 < max_height"
  shows "\<exists>new_width new_height.
     fit_to_box img max_width max_height = Inr (img, new_width, new_height)
     \<and> (if real (width img) / real (height img) > max_width / max_height
        then new_width = max_width
           \<and> new_height = max_width / (real (width img) / real (height img))
        else new_height = max_height
           \<and> new_width = max_height * (real (width img) / real (height img)))
     \<and> new_width \<le> max_width \<and> new_height \<le> max_height
     \<and> (new_width = max_width \<or> new_height = max_height)
     \<and> new_width / new_height = real (width img) / real (height img)"
proof -
  define a where "a = real (width img) / real (height img)"
  have a_pos: "0 < a"
    using assms(1,2) by (simp add: a_def)
  show ?thesis
  proof (cases "a > max_width / max_height")
    case True
    have fit: "fit_to_box img max_width max_height = Inr (img, max_width, max_width / a)"
      using True assms(1,2,4) by (simp add: fit_to_box_def a_def Let_def)
    from True assms(4) have "max_width < a * max_height"
      by (simp add: pos_divide_less_eq)
    then have small: "max_width / a \<le> max_height"
      using a_pos by (simp add: pos_divide_le_eq mult.commute)
    have ratio: "max_width / (max_width / a) = a"
      using assms(3) by simp
    show ?thesis
      using fit True small ratio by (simp add: a_def)
  next
    case False
    have fit: "fit_to_box img max_width max_height = Inr (img, max_height * a, max_height)"
      using False assms(2,4) by (simp add: fit_to_box_def a_def Let_def)
    from False assms(4) have small: "max_height * a \<le> max_width"
      by (simp add: not_less pos_le_divide_eq mult.commute)
    have ratio: "max_height * a / max_height = a"
      using assms(4) by simp
    show ?thesis
      using fit False small ratio by (simp add: a_def)
  qed
qed

theorem fit_to_box_fits_witness:
  "0 < width \<lparr>width = 400, height = 300, raster = Source 0\<rparr>
   \<and> 0 < height \<lparr>width = 400, height = 300, raster = Source 0\<rparr>
   \<and> (0::real) < 270 \<and> (0::real) < 360
   \<and> fit_to_box \<lparr>width = 400, height = 300, raster = Source 0\<rparr> 270 360
       = Inr (\<lparr>width = 400, height = 300, raster = Source 0\<rparr>, 270, 405 / 2)"
  using fit_to_box_fits [of "\<lparr>width = 400, height = 300, raster = Source 0\<rparr>" 270 360]
  by (simp add: fit_to_box_def)

end
